theory Spec2Isabelle
  imports Main "HOL-Library.Char_ord" "HOL-Library.List_Lexorder" "HOL-Library.Multiset"
    "HOL-Library.Word"
begin

unbundle bit_operations_syntax

section \<open>Python values and exceptions\<close>

text \<open>
  The exceptions the two modules can raise.  \<open>IncompleteTransaction\<close> and \<open>InvalidBlock\<close> are
  the classes the source declares; the others are Python's own (and the \<open>ecdsa\<close> package's
  \<open>BadSignatureError\<close> and its error for a PEM text it cannot read).  All of them are subclasses
  of \<open>Exception\<close>.  \<open>UnicodeEncodeError\<close> and \<open>OSError\<close> are what \<open>print\<close> raises when the standard
  output cannot encode a character or cannot be written; \<open>SyntaxError\<close> is what \<open>import\<close> raises
  for a module that does not compile.
\<close>

datatype error =
    AttributeError
  | TypeError
  | ValueError
  | BadSignatureError
  | MalformedKey
  | IncompleteTransaction
  | InvalidBlock
  | UnicodeEncodeError
  | OSError
  | SyntaxError

text \<open>
  The Python values that reach \<open>json.dumps\<close>.  A \<open>str\<close> is a \<open>string\<close>, one \<open>char\<close> per code
  point (code points up to 255).  A \<open>dict\<close> is the list of its items in insertion order; its
  keys are strings.  \<open>PObj\<close> is any object the JSON encoder has no encoding for (an instance of
  \<open>Transaction\<close>, a bound method); it carries the name of its type.
\<close>

datatype pyval =
    PNone
  | PStr string
  | PInt int
  | PList "pyval list"
  | PDict "(string \<times> pyval) list"
  | PObj string

type_synonym bytes = "8 word list"

section \<open>\<open>json.dumps(d, sort_keys=True)\<close>\<close>

text \<open>
  Hexadecimal digits in lower case, as \<open>bytes.hex\<close>, \<open>hexdigest\<close> and the \<open>\u\<close> escapes of
  \<open>json\<close> write them.
\<close>

definition hexdigit :: "nat \<Rightarrow> char" where
  "hexdigit n = ''0123456789abcdef'' ! (n mod 16)"

text \<open>
  \<open>json.encoder.py_encode_basestring_ascii\<close>: every character outside \<open>' '..'~'\<close>, the
  backslash and the double quote are escaped; the rest is copied.
\<close>

definition escape_char :: "char \<Rightarrow> string" where
  "escape_char c =
     (if c = CHR 0x5C then [CHR 0x5C, CHR 0x5C]
      else if c = CHR 0x22 then [CHR 0x5C, CHR 0x22]
      else if c = CHR 0x08 then [CHR 0x5C, CHR ''b'']
      else if c = CHR 0x0C then [CHR 0x5C, CHR ''f'']
      else if c = CHR 0x0A then [CHR 0x5C, CHR ''n'']
      else if c = CHR 0x0D then [CHR 0x5C, CHR ''r'']
      else if c = CHR 0x09 then [CHR 0x5C, CHR ''t'']
      else if 32 \<le> (of_char c :: nat) \<and> (of_char c :: nat) \<le> 126 then [c]
      else [CHR 0x5C, CHR ''u'', CHR ''0'', CHR ''0'',
            hexdigit ((of_char c :: nat) div 16), hexdigit ((of_char c :: nat) mod 16)])"

definition encode_basestring_ascii :: "string \<Rightarrow> string" where
  "encode_basestring_ascii s = [CHR 0x22] @ concat (map escape_char s) @ [CHR 0x22]"

text \<open>\<open>str(n)\<close> for an integer: decimal digits, a minus sign first when negative.\<close>

fun dec :: "nat \<Rightarrow> string" where
  "dec n = (if n < 10 then [hexdigit n] else dec (n div 10) @ [hexdigit (n mod 10)])"

declare dec.simps [simp del]

definition str_int :: "int \<Rightarrow> string" where
  "str_int i = (if i < 0 then CHR ''-'' # dec (nat (- i)) else dec (nat i))"

text \<open>\<open>sep.join(parts)\<close>.\<close>

fun join :: "string \<Rightarrow> string list \<Rightarrow> string" where
  "join sep [] = []"
| "join sep [x] = x"
| "join sep (x # y # ys) = x @ sep @ join sep (y # ys)"

text \<open>
  Evaluating a list of computations from left to right: the first exception ends it.
\<close>

fun sequence :: "(error + 'a) list \<Rightarrow> error + 'a list" where
  "sequence [] = Inr []"
| "sequence (Inl e # _) = Inl e"
| "sequence (Inr x # rs) = (case sequence rs of Inl e \<Rightarrow> Inl e | Inr xs \<Rightarrow> Inr (x # xs))"

text \<open>
  The encoder with the default separators \<open>', '\<close> and \<open>': '\<close> and \<open>sort_keys=True\<close>: the items
  of every dictionary are written in the order of their keys (strings compare by code point,
  lexicographically, which is the order of \<open>List_Lexorder\<close> over \<open>Char_ord\<close>).  An object
  without an encoding raises \<open>TypeError\<close>.
\<close>

fun json_dumps :: "pyval \<Rightarrow> error + string" where
  "json_dumps PNone = Inr ''null''"
| "json_dumps (PStr s) = Inr (encode_basestring_ascii s)"
| "json_dumps (PInt i) = Inr (str_int i)"
| "json_dumps (PList xs) =
     (case sequence (map json_dumps xs) of
        Inl e \<Rightarrow> Inl e
      | Inr ss \<Rightarrow> Inr (''['' @ join '', '' ss @ '']''))"
| "json_dumps (PDict kvs) =
     (case sequence (map (\<lambda>kv. case json_dumps (snd kv) of
                                   Inl e \<Rightarrow> Inl e
                                 | Inr s \<Rightarrow> Inr (encode_basestring_ascii (fst kv) @ '': '' @ s))
                         (sort_key fst kvs)) of
        Inl e \<Rightarrow> Inl e
      | Inr ss \<Rightarrow> Inr (''{'' @ join '', '' ss @ ''}''))"
| "json_dumps (PObj ty) = Inl TypeError"

section \<open>Bytes, hexadecimal text and the cryptographic library\<close>

text \<open>
  \<open>str.encode()\<close>: UTF-8.  A code point below 128 is one byte, one below 256 two bytes.
\<close>

definition utf8_char :: "char \<Rightarrow> bytes" where
  "utf8_char c =
     (let n = (of_char c :: nat)
      in if n < 128 then [of_nat n] else [of_nat (192 + n div 64), of_nat (128 + n mod 64)])"

definition encode :: "string \<Rightarrow> bytes" where
  "encode s = concat (map utf8_char s)"

text \<open>\<open>bytes.hex()\<close>: two lower-case digits for each byte.\<close>

definition hex :: "bytes \<Rightarrow> string" where
  "hex bs = concat (map (\<lambda>b. [hexdigit (unat b div 16), hexdigit (unat b mod 16)]) bs)"

text \<open>
  \<open>bytes.fromhex(s)\<close>: ASCII white space is skipped before each pair of digits; a character
  that is no hexadecimal digit, or a digit without its partner, raises \<open>ValueError\<close>.
\<close>

definition hexval :: "char \<Rightarrow> nat option" where
  "hexval c =
     (let n = (of_char c :: nat)
      in if 48 \<le> n \<and> n \<le> 57 then Some (n - 48)
         else if 97 \<le> n \<and> n \<le> 102 then Some (n - 87)
         else if 65 \<le> n \<and> n \<le> 70 then Some (n - 55)
         else None)"

definition is_space :: "char \<Rightarrow> bool" where
  "is_space c = ((of_char c :: nat) = 32 \<or> (9 \<le> (of_char c :: nat) \<and> (of_char c :: nat) \<le> 13))"

fun fromhex :: "string \<Rightarrow> error + bytes" where
  "fromhex [] = Inr []"
| "fromhex (c # cs) =
     (if is_space c then fromhex cs
      else case hexval c of
        None \<Rightarrow> Inl ValueError
      | Some hi \<Rightarrow>
          (case cs of
             [] \<Rightarrow> Inl ValueError
           | d # ds \<Rightarrow>
               (case hexval d of
                  None \<Rightarrow> Inl ValueError
                | Some lo \<Rightarrow>
                    (case fromhex ds of
                       Inl e \<Rightarrow> Inl e
                     | Inr bs \<Rightarrow> Inr (of_nat (16 * hi + lo) # bs)))))"

declare fromhex.simps [simp del]

text \<open>
  The library functions the modules call and whose code is not part of the repository:
  \<open>hashlib.sha256\<close> (a digest of 256 bits) and the \<open>ecdsa\<close> package.  They are parameters of
  the model.  \<open>sk_sign\<close> is \<open>SigningKey.sign\<close>, which draws a fresh random number at every call:
  the number is an argument.  \<open>from_pem\<close> is \<open>VerifyingKey.from_pem\<close>, \<open>None\<close> when it raises.
  \<open>vk_verify vk sig data\<close> says whether \<open>VerifyingKey.verify\<close> accepts; the method returns
  \<open>True\<close> when it does and raises \<open>BadSignatureError\<close> when it does not.
\<close>

record ('sk, 'vk) crypto =
  sha256 :: "bytes \<Rightarrow> 256 word"
  sk_sign :: "'sk \<Rightarrow> nat \<Rightarrow> bytes \<Rightarrow> bytes"
  verifying_key :: "'sk \<Rightarrow> 'vk"
  to_pem :: "'vk \<Rightarrow> bytes"
  from_pem :: "bytes \<Rightarrow> 'vk option"
  vk_verify :: "'vk \<Rightarrow> bytes \<Rightarrow> bytes \<Rightarrow> bool"

text \<open>\<open>hexdigest()\<close> of a digest of 256 bits: 64 digits, the most significant first.\<close>

definition hexdigest :: "256 word \<Rightarrow> string" where
  "hexdigest w = map (\<lambda>i. hexdigit (unat (drop_bit (4 * i) w) mod 16)) (rev [0..<64])"

section \<open>\<open>proj_transaction.py\<close>\<close>

text \<open>
  An attribute of an object that some method reads and no constructor is sure to have set:
  \<open>Unset\<close> when the object has no such attribute (reading it raises \<open>AttributeError\<close>),
  otherwise its value, \<open>None\<close> or a \<open>str\<close>.
\<close>

datatype attr = Unset | NoneVal | StrVal string

definition getattr :: "attr \<Rightarrow> error + pyval" where
  "getattr a = (case a of Unset \<Rightarrow> Inl AttributeError | NoneVal \<Rightarrow> Inr PNone | StrVal s \<Rightarrow> Inr (PStr s))"

text \<open>\<open>str(v)\<close> for \<open>None\<close> and for a \<open>str\<close>.\<close>

definition py_str :: "attr \<Rightarrow> error + string" where
  "py_str a = (case a of Unset \<Rightarrow> Inl AttributeError | NoneVal \<Rightarrow> Inr ''None'' | StrVal s \<Rightarrow> Inr s)"

text \<open>
  The attributes of a \<open>Transaction\<close>.  \<open>__init__\<close> assigns the first six.  \<open>author\<close>, \<open>vk\<close> and
  \<open>signature\<close> are assigned by \<open>sign\<close> only; \<open>message\<close> and \<open>date\<close> are read by \<open>hash\<close> and assigned
  by no method of the class.
\<close>

record Transaction =
  container_id :: string
  event :: string
  timestamp :: string
  ship :: "string option"
  harbor :: "string option"
  info :: "(string \<times> pyval) list"
  author :: attr
  vk :: attr
  signature :: attr
  message :: attr
  date :: attr

text \<open>
  \<open>Transaction.__init__(container_id, event, info, harbor=None, ship=None, date=None)\<close>.
  \<open>now\<close> is what \<open>proj_utils.get_time()\<close> returns at the call (the module is not part of the
  sources); \<open>date or get_time()\<close> takes it when \<open>date\<close> is \<open>None\<close> or the empty string.
\<close>

definition Transaction_init ::
  "string \<Rightarrow> string \<Rightarrow> string \<Rightarrow> (string \<times> pyval) list \<Rightarrow> string option \<Rightarrow> string option \<Rightarrow>
   string option \<Rightarrow> Transaction" where
  "Transaction_init now cid ev nfo hbr shp dte =
     \<lparr> container_id = cid, event = ev,
       timestamp = (case dte of None \<Rightarrow> now | Some d \<Rightarrow> if d = [] then now else d),
       ship = shp, harbor = hbr, info = nfo,
       author = Unset, vk = Unset, signature = Unset, message = Unset, date = Unset \<rparr>"

text \<open>The property \<open>data\<close>: a dictionary of four items, read in this order.\<close>

definition Transaction_data :: "Transaction \<Rightarrow> error + (string \<times> pyval) list" where
  "Transaction_data t =
     (case getattr (author t) of
        Inl e \<Rightarrow> Inl e
      | Inr a \<Rightarrow>
          (case getattr (vk t) of
             Inl e \<Rightarrow> Inl e
           | Inr v \<Rightarrow>
               Inr [(''container_id'', PStr (container_id t)), (''event'', PStr (event t)),
                    (''author'', a), (''vk'', v)]))"

definition Transaction_json_dumps :: "Transaction \<Rightarrow> error + string" where
  "Transaction_json_dumps t =
     (case Transaction_data t of Inl e \<Rightarrow> Inl e | Inr d \<Rightarrow> json_dumps (PDict d))"

text \<open>
  \<open>sign(sk)\<close>.  The only statement that can raise is the first, so an exception leaves the
  object as it was: \<open>Inl\<close> is the exception, \<open>Inr\<close> the object after the three assignments.
  \<open>k\<close> is the random number \<open>sk.sign\<close> draws.
\<close>

definition Transaction_sign ::
  "('sk, 'vk) crypto \<Rightarrow> 'sk \<Rightarrow> nat \<Rightarrow> Transaction \<Rightarrow> error + Transaction" where
  "Transaction_sign C sk k t =
     (case Transaction_json_dumps t of
        Inl e \<Rightarrow> Inl e
      | Inr json_data \<Rightarrow>
          (let sig = hex (sk_sign C sk k (encode json_data));
               vk_hex = hex (to_pem C (verifying_key C sk))
           in Inr (t\<lparr>signature := StrVal sig, vk := StrVal vk_hex,
                     author := StrVal (hexdigest (sha256 C (encode vk_hex)))\<rparr>)))"

text \<open>
  \<open>bytes.fromhex(x)\<close> for an attribute \<open>x\<close>: \<open>AttributeError\<close> when the attribute is not set,
  \<open>TypeError\<close> when it is \<open>None\<close>.
\<close>

definition fromhex_attr :: "attr \<Rightarrow> error + bytes" where
  "fromhex_attr a =
     (case a of Unset \<Rightarrow> Inl AttributeError | NoneVal \<Rightarrow> Inl TypeError | StrVal s \<Rightarrow> fromhex s)"

text \<open>The body of the \<open>try\<close> block of \<open>verify\<close>.\<close>

definition verify_try :: "('sk, 'vk) crypto \<Rightarrow> Transaction \<Rightarrow> error + bool" where
  "verify_try C t =
     (case fromhex_attr (vk t) of
        Inl e \<Rightarrow> Inl e
      | Inr pem \<Rightarrow>
          (case from_pem C pem of
             None \<Rightarrow> Inl MalformedKey
           | Some key \<Rightarrow>
               (case fromhex_attr (signature t) of
                  Inl e \<Rightarrow> Inl e
                | Inr binary_signature \<Rightarrow>
                    (case Transaction_json_dumps t of
                       Inl e \<Rightarrow> Inl e
                     | Inr s \<Rightarrow>
                         if vk_verify C key binary_signature (encode s) then Inr True
                         else Inl BadSignatureError))))"

text \<open>
  The standard output of the process, which the handler of \<open>verify\<close> writes to.  \<open>exc_text e\<close>
  is \<open>str(e)\<close>, the text of the exception.  \<open>print_line s\<close> is \<open>print(s)\<close>: \<open>None\<close> when it
  returns, the exception when it raises.  Both belong to the interpreter and its
  environment, so they are parameters.
\<close>

record console =
  exc_text :: "error \<Rightarrow> string"
  print_line :: "string \<Rightarrow> error option"

text \<open>
  The text the handler prints: \<open>f"Echec de la verification: {e}"\<close>, where the source has
  an acute accent on the first letter and on the \<open>e\<close> after the \<open>v\<close> (code points 201 and 233).
\<close>

definition failure_text :: "console \<Rightarrow> error \<Rightarrow> string" where
  "failure_text io e =
     [CHR 0xC9] @ ''chec de la v'' @ [CHR 0xE9] @ ''rification: '' @ exc_text io e"

text \<open>
  \<open>verify()\<close>: the \<open>try\<close> block, and the handler \<open>except Exception as e\<close>, which first prints
  the failure text and then returns \<open>False\<close>.  The \<open>print\<close> stands in the handler, outside
  every \<open>try\<close>: an exception it raises leaves \<open>verify\<close>.
\<close>

definition Transaction_verify ::
  "('sk, 'vk) crypto \<Rightarrow> console \<Rightarrow> Transaction \<Rightarrow> error + bool" where
  "Transaction_verify C io t =
     (case verify_try C t of
        Inr b \<Rightarrow> Inr b
      | Inl e \<Rightarrow>
          (case print_line io (failure_text io e) of
             Some e' \<Rightarrow> Inl e'
           | None \<Rightarrow> Inr False))"

text \<open>
  \<open>hash()\<close>.  \<open>self.signature is None or self.vk is None\<close> reads \<open>vk\<close> only when the signature
  is not \<open>None\<close>; the operands of the concatenation are evaluated from left to right.
\<close>

definition Transaction_hash :: "('sk, 'vk) crypto \<Rightarrow> Transaction \<Rightarrow> error + string" where
  "Transaction_hash C t =
     (case getattr (signature t) of
        Inl e \<Rightarrow> Inl e
      | Inr sg \<Rightarrow>
          (if sg = PNone then Inl IncompleteTransaction
           else (case getattr (vk t) of
                   Inl e \<Rightarrow> Inl e
                 | Inr v \<Rightarrow>
                     (if v = PNone then Inl IncompleteTransaction
                      else (case sequence [Transaction_json_dumps t, py_str (signature t),
                                           py_str (vk t), py_str (message t), py_str (date t),
                                           py_str (author t)] of
                              Inl e \<Rightarrow> Inl e
                            | Inr parts \<Rightarrow>
                                Inr (hexdigest (sha256 C (encode (concat parts)))))))))"

section \<open>\<open>proj_block.py\<close>\<close>

text \<open>
  The module does not compile as it is written.  Line 97, the last statement of \<open>hash\<close>, reads
  \<open>return hashlib.sha256(sorted_block_data.encode()).hexdigest()x\<close>, and a name right after a
  call is no Python expression.  So \<open>import proj_block\<close> raises \<open>SyntaxError\<close>, and no statement
  of the module ever runs: a program gets neither a \<open>Block\<close> nor a hash from it.
\<close>

definition proj_block_import :: "error option" where
  "proj_block_import = Some SyntaxError"

text \<open>
  What the statements of the class compute is modelled all the same, for the defects that
  remain once line 97 has lost its \<open>x\<close>: \<open>Block_init\<close>, \<open>Block_next\<close> and \<open>Block_hash_body\<close>
  follow the text of \<open>__init__\<close>, \<open>next\<close> and \<open>hash\<close>.  \<open>Block_new\<close> and \<open>Block_hash\<close> are the calls
  \<open>Block()\<close> and \<open>b.hash()\<close> as a program gets them from the file as written: the import comes
  first.

  A \<open>Block\<close> has the five attributes \<open>index\<close>, \<open>previous_hash\<close>, \<open>timestamp\<close>, \<open>transactions\<close> and
  \<open>proof\<close>.  \<open>previous_hash\<close> holds a \<open>str\<close> in the genesis block; \<open>next\<close> stores \<open>self.hash\<close> there,
  which is the method \<open>hash\<close> bound to the block it was read from, so the value is either a
  string or such a bound method.
\<close>

datatype Block =
  Block (index: int) (previous_hash: hashref) (block_timestamp: string)
    (transactions: "Transaction list") (proof_nonce: int)
and hashref = HashStr string | HashMethod Block

text \<open>
  The statements of \<open>__init__\<close> in the branch \<open>data is None\<close>, the genesis block.  (The other
  branch builds a block from a dictionary; no method of the two modules calls it.)
\<close>

definition Block_init :: Block where
  "Block_init = Block 0 (HashStr (replicate 64 CHR ''0'')) ''2023-11-24 00:00:00.000000'' [] 0"

text \<open>
  The statements of \<open>next(transactions)\<close>.  \<open>now\<close> is what \<open>proj_utils.get_time()\<close> returns.  The
  new block starts as \<open>Block()\<close> and its five attributes are assigned in turn; \<open>self.hash\<close> is
  written without parentheses.
\<close>

definition Block_next :: "string \<Rightarrow> Block \<Rightarrow> Transaction list \<Rightarrow> Block" where
  "Block_next now self txs = Block (index self + 1) (HashMethod self) now txs 0"

text \<open>
  The value of \<open>previous_hash\<close> as \<open>json.dumps\<close> sees it: a bound method, like an instance of
  \<open>Transaction\<close>, is an object without a JSON encoding.
\<close>

definition hashref_value :: "hashref \<Rightarrow> pyval" where
  "hashref_value h = (case h of HashStr s \<Rightarrow> PStr s | HashMethod b \<Rightarrow> PObj ''method'')"

text \<open>
  The statements of \<open>hash()\<close>, line 97 read without its \<open>x\<close>: the dictionary of the five
  attributes is written with sorted keys, and the result is the hexadecimal SHA-256 digest of
  that text.
\<close>

definition Block_hash_body :: "('sk, 'vk) crypto \<Rightarrow> Block \<Rightarrow> error + string" where
  "Block_hash_body C b =
     (case json_dumps (PDict
             [(''index'', PInt (index b)),
              (''previous_hash'', hashref_value (previous_hash b)),
              (''timestamp'', PStr (block_timestamp b)),
              (''transactions'', PList (map (\<lambda>t. PObj ''Transaction'') (transactions b))),
              (''proof'', PInt (proof_nonce b))]) of
        Inl e \<Rightarrow> Inl e
      | Inr sorted_block_data \<Rightarrow> Inr (hexdigest (sha256 C (encode sorted_block_data))))"

text \<open>\<open>Block()\<close> and \<open>b.hash()\<close> from the file as written.\<close>

definition Block_new :: "error + Block" where
  "Block_new = (case proj_block_import of Some e \<Rightarrow> Inl e | None \<Rightarrow> Inr Block_init)"

definition Block_hash :: "('sk, 'vk) crypto \<Rightarrow> Block \<Rightarrow> error + string" where
  "Block_hash C b = (case proj_block_import of Some e \<Rightarrow> Inl e | None \<Rightarrow> Block_hash_body C b)"

section \<open>Stand-ins for the library and the standard output in the examples\<close>

text \<open>
  The theorems below hold for every library \<open>C\<close>.  Their examples need a concrete one.  In
  \<open>toy\<close> a key is a byte, the PEM text of a key is that byte, a signature is the key, the
  random number and then the message, and \<open>verify\<close> accepts exactly these signatures.  The
  digest of a text is the sum of its bytes modulo 8, so its \<open>hexdigest\<close> is 63 zeros and one
  more digit.  Nothing is proved from what \<open>toy\<close> computes but the examples.
\<close>

definition toy :: "(8 word, 8 word) crypto" where
  "toy =
     \<lparr> sha256 = (\<lambda>bs. ucast (sum_list bs AND 7)),
       sk_sign = (\<lambda>sk k msg. sk # of_nat k # msg),
       verifying_key = (\<lambda>sk. sk),
       to_pem = (\<lambda>key. [key]),
       from_pem = (\<lambda>bs. case bs of [b] \<Rightarrow> Some b | _ \<Rightarrow> None),
       vk_verify = (\<lambda>key sg msg. case sg of a # r # m \<Rightarrow> a = key \<and> m = msg | _ \<Rightarrow> False) \<rparr>"

text \<open>
  Two standard outputs, for any texts \<open>f\<close> of the exceptions.  \<open>ascii_stdout\<close> is one whose
  encoding is ASCII with strict error handling (Python under \<open>PYTHONIOENCODING=ascii\<close>, or in
  the \<open>C\<close> locale of older versions): \<open>print\<close> raises \<open>UnicodeEncodeError\<close> for a text with a
  character above 127.  \<open>utf8_stdout\<close> is one whose \<open>print\<close> always returns.
\<close>

definition ascii_stdout :: "(error \<Rightarrow> string) \<Rightarrow> console" where
  "ascii_stdout f =
     \<lparr> exc_text = f,
       print_line = (\<lambda>s. if list_all (\<lambda>c. (of_char c :: nat) < 128) s then None
                          else Some UnicodeEncodeError) \<rparr>"

definition utf8_stdout :: "(error \<Rightarrow> string) \<Rightarrow> console" where
  "utf8_stdout f = \<lparr> exc_text = f, print_line = (\<lambda>s. None) \<rparr>"

text \<open>
  The transactions of the examples.  \<open>tx_new\<close> is \<open>Transaction("C1", "loaded", {"size": "40ft"})\<close>
  as \<open>__init__\<close> leaves it.  No method of the class can sign it (\<open>sign\<close> raises), so a signed
  transaction exists only when \<open>author\<close> and \<open>vk\<close> were assigned from outside first:
  \<open>tx_base\<close> is \<open>tx_new\<close> after \<open>t.author = None; t.vk = None\<close>, the state the docstring of
  \<open>__init__\<close> describes, and \<open>tx_signed\<close> is \<open>tx_base\<close> after \<open>t.sign(sk)\<close> with the key 7 and the
  random number 3.  \<open>tx_resigned\<close> is \<open>tx_signed\<close> after a second \<open>t.sign(sk)\<close> with the same key
  (and the random number 4).  \<open>tx_anonymous\<close> is \<open>tx_base\<close> after \<open>t.vk = "07"\<close> (the text \<open>sign\<close>
  stores for the key 7), \<open>t.sign(sk)\<close> and \<open>t.author = None\<close>: a transaction without an author.
\<close>

definition tx_new :: Transaction where
  "tx_new =
     Transaction_init ''2024-01-01 00:00:00.000000'' ''C1'' ''loaded'' [(''size'', PStr ''40ft'')]
       None None None"

definition tx_base :: Transaction where
  "tx_base = tx_new\<lparr>author := NoneVal, vk := NoneVal\<rparr>"

definition tx_signed :: Transaction where
  "tx_signed = (case Transaction_sign toy 7 3 tx_base of Inl e \<Rightarrow> tx_base | Inr t \<Rightarrow> t)"


definition tx_anonymous :: Transaction where
  "tx_anonymous =
     (case Transaction_sign toy 7 3 (tx_base\<lparr>vk := StrVal ''07''\<rparr>) of
        Inl e \<Rightarrow> tx_base
      | Inr t \<Rightarrow> t\<lparr>author := NoneVal\<rparr>)"


section \<open>Sequences of calls and the two states of a transaction\<close>

text \<open>
  A call of one of the three methods of a transaction.  \<open>verify\<close> and \<open>hash\<close> assign no
  attribute; \<open>sign\<close> assigns three when it returns and none when it raises.
\<close>

datatype 'sk call = CallSign 'sk nat | CallVerify | CallHash

definition run_call :: "('sk, 'vk) crypto \<Rightarrow> Transaction \<Rightarrow> 'sk call \<Rightarrow> Transaction" where
  "run_call C t c =
     (case c of
        CallSign sk k \<Rightarrow> (case Transaction_sign C sk k t of Inl e \<Rightarrow> t | Inr t' \<Rightarrow> t')
      | CallVerify \<Rightarrow> t
      | CallHash \<Rightarrow> t)"

definition tx_unsigned :: "Transaction \<Rightarrow> bool" where
  "tx_unsigned t = (author t = Unset \<and> vk t = Unset \<and> signature t = Unset)"

definition tx_fully_signed :: "('sk, 'vk) crypto \<Rightarrow> Transaction \<Rightarrow> bool" where
  "tx_fully_signed C t =
     (case vk t of
        StrVal v \<Rightarrow>
          (case signature t of
             StrVal s \<Rightarrow> author t = StrVal (hexdigest (sha256 C (encode v)))
           | _ \<Rightarrow> False)
      | _ \<Rightarrow> False)"

section \<open>The text \<open>json.dumps\<close> writes for a transaction\<close>

text \<open>
  The JSON text of an attribute that is \<open>None\<close> or a string, and of the four items of
  \<open>Transaction.data\<close>, keys in sorted order.  \<open>Transaction_json_dumps_text\<close> below shows that
  this is the text the model of \<open>json.dumps\<close> produces.
\<close>

definition attr_text :: "attr \<Rightarrow> string" where
  "attr_text a =
     (case a of Unset \<Rightarrow> [] | NoneVal \<Rightarrow> ''null'' | StrVal s \<Rightarrow> encode_basestring_ascii s)"

definition tx_text :: "string \<Rightarrow> string \<Rightarrow> attr \<Rightarrow> attr \<Rightarrow> string" where
  "tx_text cid ev a v =
     ''{\"author\": '' @ attr_text a @ '', \"container_id\": '' @ encode_basestring_ascii cid
     @ '', \"event\": '' @ encode_basestring_ascii ev @ '', \"vk\": '' @ attr_text v @ ''}''"

section \<open>Reading attributes\<close>

lemma getattr_simps [simp]:
  "getattr Unset = Inl AttributeError"
  "getattr NoneVal = Inr PNone"
  "getattr (StrVal s) = Inr (PStr s)"
  by (simp_all add: getattr_def)

lemma py_str_simps [simp]:
  "py_str Unset = Inl AttributeError"
  "py_str NoneVal = Inr ''None''"
  "py_str (StrVal s) = Inr s"
  by (simp_all add: py_str_def)

lemma fromhex_attr_simps [simp]:
  "fromhex_attr Unset = Inl AttributeError"
  "fromhex_attr NoneVal = Inl TypeError"
  "fromhex_attr (StrVal s) = fromhex s"
  by (simp_all add: fromhex_attr_def)

section \<open>The closed form of the JSON text\<close>

lemma quote_keys:
  "encode_basestring_ascii ''author'' = ''\"author\"''"
  "encode_basestring_ascii ''container_id'' = ''\"container_id\"''"
  "encode_basestring_ascii ''event'' = ''\"event\"''"
  "encode_basestring_ascii ''vk'' = ''\"vk\"''"
  by (simp_all add: encode_basestring_ascii_def escape_char_def)

lemma Transaction_json_dumps_text:
  "Transaction_json_dumps t =
     (if author t = Unset \<or> vk t = Unset then Inl AttributeError
      else Inr (tx_text (container_id t) (event t) (author t) (vk t)))"
  by (cases "author t"; cases "vk t")
     (simp_all add: Transaction_json_dumps_def Transaction_data_def quote_keys tx_text_def
        attr_text_def)

section \<open>The JSON text determines the fields\<close>

lemma hexdigit_inj: "a < 16 \<Longrightarrow> b < 16 \<Longrightarrow> hexdigit a = hexdigit b \<Longrightarrow> a = b"
proof -
  assume a: "a < 16" and b: "b < 16" and eq: "hexdigit a = hexdigit b"
  have d: "distinct ''0123456789abcdef''" by simp
  have "''0123456789abcdef'' ! a = ''0123456789abcdef'' ! b"
    using eq a b by (simp add: hexdigit_def)
  with d a b show "a = b" by (simp add: nth_eq_iff_index_eq)
qed

lemma hex_pair_inj:
  assumes "hexdigit ((of_char c :: nat) div 16) = hexdigit ((of_char c' :: nat) div 16)"
    and "hexdigit ((of_char c :: nat) mod 16) = hexdigit ((of_char c' :: nat) mod 16)"
  shows "c = c'"
proof -
  have lt: "(of_char c :: nat) div 16 < 16" "(of_char c' :: nat) div 16 < 16"
    by (rule less_mult_imp_div_less, simp)+
  have "(of_char c :: nat) div 16 = (of_char c' :: nat) div 16"
    by (rule hexdigit_inj [OF lt assms(1)])
  moreover have "(of_char c :: nat) mod 16 = (of_char c' :: nat) mod 16"
    by (rule hexdigit_inj [OF _ _ assms(2)]) simp_all
  ultimately have "(of_char c :: nat) = of_char c'"
    by (metis div_mult_mod_eq)
  then show ?thesis by simp
qed

lemma escape_char_prefix_free:
  assumes "escape_char c @ x = escape_char c' @ x'"
  shows "c = c' \<and> x = x'"
  using assms
  by (auto simp: escape_char_def split: if_splits dest: hex_pair_inj)

lemma escape_char_not_quote: "escape_char c @ x \<noteq> CHR 0x22 # y"
  by (simp add: escape_char_def)

lemma escaped_text_inj:
  "concat (map escape_char s) @ CHR 0x22 # r = concat (map escape_char s') @ CHR 0x22 # r' \<Longrightarrow>
   s = s' \<and> r = r'"
proof (induction s arbitrary: s')
  case Nil
  then show ?case
    using escape_char_not_quote by (cases s') (auto simp: eq_commute [of "CHR 0x22 # _"])
next
  case (Cons c cs)
  show ?case
  proof (cases s')
    case Nil
    with Cons.prems show ?thesis using escape_char_not_quote by auto
  next
    case (Cons c' cs')
    with Cons.prems have
      "escape_char c @ (concat (map escape_char cs) @ CHR 0x22 # r)
       = escape_char c' @ (concat (map escape_char cs') @ CHR 0x22 # r')"
      by simp
    from escape_char_prefix_free [OF this] Cons.IH [of cs'] Cons show ?thesis by simp
  qed
qed

lemma quoted_inj:
  "encode_basestring_ascii s @ r = encode_basestring_ascii s' @ r' \<Longrightarrow> s = s' \<and> r = r'"
  using escaped_text_inj [of s r s' r'] by (simp add: encode_basestring_ascii_def)

lemma attr_text_inj:
  "a \<noteq> Unset \<Longrightarrow> a' \<noteq> Unset \<Longrightarrow> attr_text a @ r = attr_text a' @ r' \<Longrightarrow> a = a' \<and> r = r'"
proof (cases a; cases a')
  fix s s'
  assume "a = StrVal s" "a' = StrVal s'" "attr_text a @ r = attr_text a' @ r'"
  then show ?thesis using quoted_inj [of s r s' r'] by (simp add: attr_text_def)
qed (simp_all add: attr_text_def encode_basestring_ascii_def)

lemma tx_text_inj:
  assumes "a \<noteq> Unset" "v \<noteq> Unset" "a' \<noteq> Unset" "v' \<noteq> Unset"
    and "tx_text cid ev a v = tx_text cid' ev' a' v'"
  shows "cid = cid' \<and> ev = ev' \<and> a = a' \<and> v = v'"
proof -
  from assms(5) have 1:
    "attr_text a @ ('', \"container_id\": '' @ encode_basestring_ascii cid
        @ '', \"event\": '' @ encode_basestring_ascii ev @ '', \"vk\": '' @ attr_text v @ ''}'')
     = attr_text a' @ ('', \"container_id\": '' @ encode_basestring_ascii cid'
        @ '', \"event\": '' @ encode_basestring_ascii ev' @ '', \"vk\": '' @ attr_text v' @ ''}'')"
    by (simp add: tx_text_def)
  from attr_text_inj [OF assms(1) assms(3) 1] have a: "a = a'" and 2:
    "encode_basestring_ascii cid
        @ ('', \"event\": '' @ encode_basestring_ascii ev @ '', \"vk\": '' @ attr_text v @ ''}'')
     = encode_basestring_ascii cid'
        @ ('', \"event\": '' @ encode_basestring_ascii ev' @ '', \"vk\": '' @ attr_text v' @ ''}'')"
    by simp_all
  from quoted_inj [OF 2] have c: "cid = cid'" and 3:
    "encode_basestring_ascii ev @ ('', \"vk\": '' @ attr_text v @ ''}'')
     = encode_basestring_ascii ev' @ ('', \"vk\": '' @ attr_text v' @ ''}'')"
    by simp_all
  from quoted_inj [OF 3] have e: "ev = ev'" and 4: "attr_text v @ ''}'' = attr_text v' @ ''}''"
    by simp_all
  from attr_text_inj [OF assms(2) assms(4) 4] have "v = v'" by simp
  with a c e show ?thesis by simp
qed


section \<open>The order of insertion does not matter\<close>



section \<open>\<open>sign\<close> assigns three attributes or none\<close>

lemma sign_fully_signed: "Transaction_sign C sk k t = Inr t' \<Longrightarrow> tx_fully_signed C t'"
  by (auto simp: Transaction_sign_def tx_fully_signed_def Let_def split: sum.splits)

lemma sign_unsigned: "tx_unsigned t \<Longrightarrow> Transaction_sign C sk k t = Inl AttributeError"
  by (simp add: tx_unsigned_def Transaction_sign_def Transaction_json_dumps_def
      Transaction_data_def)

lemma run_call_preserves:
  "tx_unsigned t \<or> tx_fully_signed C t \<Longrightarrow>
   tx_unsigned (run_call C t c) \<or> tx_fully_signed C (run_call C t c)"
  by (cases c) (auto simp: run_call_def sign_fully_signed split: sum.splits)

lemma foldl_run_call_preserves:
  "tx_unsigned t \<or> tx_fully_signed C t \<Longrightarrow>
   tx_unsigned (foldl (run_call C) t cs) \<or> tx_fully_signed C (foldl (run_call C) t cs)"
proof (induction cs arbitrary: t)
  case Nil
  then show ?case by simp
next
  case (Cons c cs)
  from Cons.prems have "tx_unsigned (run_call C t c) \<or> tx_fully_signed C (run_call C t c)"
    by (rule run_call_preserves)
  then show ?case using Cons.IH by simp
qed

section \<open>UTF-8 and hexadecimal text can be read back\<close>




lemma hexval_hexdigit: "n < 16 \<Longrightarrow> hexval (hexdigit n) = Some n \<and> \<not> is_space (hexdigit n)"
proof -
  assume "n < 16"
  then have n: "n \<in> set [0..<16]" by simp
  have "list_all (\<lambda>n. hexval (hexdigit n) = Some n \<and> \<not> is_space (hexdigit n)) [0..<16]"
    by code_simp
  with n show ?thesis unfolding list_all_iff by blast
qed

lemma fromhex_hex: "fromhex (hex bs) = Inr bs"
proof (induction bs)
  case Nil
  show ?case by (simp add: hex_def fromhex.simps)
next
  case (Cons b bs)
  have lt: "unat b div 16 < 16"
    by (rule less_mult_imp_div_less) (use unsigned_less [of b] in simp)
  have lo: "unat b mod 16 < 16" by simp
  have b: "(of_nat (16 * (unat b div 16) + unat b mod 16) :: 8 word) = b"
    by (simp only: mult_div_mod_eq) simp
  have "hex (b # bs) = hexdigit (unat b div 16) # hexdigit (unat b mod 16) # hex bs"
    by (simp add: hex_def)
  then show ?case
    using hexval_hexdigit [OF lt] hexval_hexdigit [OF lo] Cons.IH b by (simp add: fromhex.simps)
qed

section \<open>What \<open>verify\<close> computes\<close>

lemma verify_try_not_False: "verify_try C t \<noteq> Inr False"
  by (auto simp: verify_try_def split: sum.splits option.splits if_splits)


lemma verify_try_cases:
  obtains "verify_try C t = Inr True" | e where "verify_try C t = Inl e"
proof (cases "verify_try C t")
  case (Inl e)
  then show ?thesis using that(2) by blast
next
  case (Inr b)
  then show ?thesis using that(1) verify_try_not_False [of C t] by (cases b) simp_all
qed




lemma print_ascii:
  "print_line (ascii_stdout f) (failure_text (ascii_stdout f) e) = Some UnicodeEncodeError"
  by (simp add: ascii_stdout_def failure_text_def)

lemma print_utf8: "print_line (utf8_stdout f) s = None"
  by (simp add: utf8_stdout_def)

lemma verify_ascii:
  "Transaction_verify C (ascii_stdout f) t =
     (case verify_try C t of Inr b \<Rightarrow> Inr b | Inl e \<Rightarrow> Inl UnicodeEncodeError)"
  by (cases "verify_try C t") (simp_all add: Transaction_verify_def print_ascii)

lemma verify_utf8:
  "Transaction_verify C (utf8_stdout f) t = Inr (verify_try C t = Inr True)"
  by (rule verify_try_cases [of C t]) (simp_all add: Transaction_verify_def print_utf8)


section \<open>The examples\<close>

lemma toy_simps:
  "sk_sign toy sk k msg = sk # of_nat k # msg"
  "verifying_key toy sk = sk"
  "to_pem toy key = [key]"
  "from_pem toy [b] = Some b"
  "vk_verify toy key (a # r # m) msg = (a = key \<and> m = msg)"
  by (simp_all add: toy_def)


lemma hex_key: "hex [7] = ''07''" "hex [9] = ''09''"
  by (simp_all add: hex_def hexdigit_def)

lemma fromhex_key: "fromhex ''07'' = Inr [7]" "fromhex ''09'' = Inr [9]"
  using fromhex_hex [of "[7]"] fromhex_hex [of "[9]"] by (simp_all only: hex_key)

lemma tx_base_text:
  "Transaction_json_dumps tx_base
   = Inr ''{\"author\": null, \"container_id\": \"C1\", \"event\": \"loaded\", \"vk\": null}''"
  by (simp add: Transaction_json_dumps_text tx_base_def tx_new_def Transaction_init_def
      tx_text_def attr_text_def encode_basestring_ascii_def escape_char_def)

lemma tx_signed_eq:
  "tx_signed = tx_base\<lparr>signature := StrVal (hex (7 # 3 # encode
       ''{\"author\": null, \"container_id\": \"C1\", \"event\": \"loaded\", \"vk\": null}'')),
     vk := StrVal ''07'', author := StrVal (hexdigest (sha256 toy (encode ''07'')))\<rparr>"
  by (simp add: tx_signed_def Transaction_sign_def tx_base_text Let_def toy_simps hex_key)

lemma tx_signed_fields:
  "container_id tx_signed = ''C1''" "event tx_signed = ''loaded''"
  "vk tx_signed = StrVal ''07''"
  "author tx_signed = StrVal (hexdigest (sha256 toy (encode ''07'')))"
  "signature tx_signed = StrVal (hex (7 # 3 # encode (tx_text ''C1'' ''loaded'' NoneVal NoneVal)))"
  using tx_base_text
  by (simp_all add: tx_signed_eq tx_base_def tx_new_def Transaction_init_def
      Transaction_json_dumps_text)


lemma tx_anonymous_eq:
  "tx_anonymous = tx_base\<lparr>signature := StrVal (hex (7 # 3 # encode
       (tx_text ''C1'' ''loaded'' NoneVal (StrVal ''07'')))),
     vk := StrVal ''07'', author := NoneVal\<rparr>"
  by (simp add: tx_anonymous_def Transaction_sign_def Transaction_json_dumps_text tx_base_def
      tx_new_def Transaction_init_def Let_def toy_simps hex_key)

lemma sign_tx_new: "Transaction_sign toy 7 3 tx_new = Inl AttributeError"
  by (simp add: Transaction_sign_def Transaction_json_dumps_text tx_new_def Transaction_init_def)

lemma sign_tx_base: "Transaction_sign toy 7 3 tx_base = Inr tx_signed"
  by (simp add: tx_signed_def Transaction_sign_def tx_base_text Let_def)


lemma tx_signed_fully: "tx_fully_signed toy tx_signed"
  by (simp add: tx_fully_signed_def tx_signed_fields)



lemma verify_try_tx_anonymous: "verify_try toy tx_anonymous = Inr True"
  by (simp add: verify_try_def tx_anonymous_eq fromhex_key fromhex_hex toy_simps
      Transaction_json_dumps_text tx_base_def tx_new_def Transaction_init_def)

section \<open>\<open>verify\<close> after \<open>sign\<close>, and after a change of the transaction\<close>




section \<open>The message \<open>sign\<close> signs\<close>

text \<open>
  C2 fails at a concrete input.  For \<open>tx_base\<close>, \<open>sign(sk)\<close> signs the text
  \<open>{"author": null, "container_id": "C1", "event": "loaded", "vk": null}\<close>: the items \<open>author\<close>
  and \<open>vk\<close> are part of the signed message, and \<open>info\<close> (here \<open>{"size": "40ft"}\<close>) is not: the
  text is the same after \<open>t.info = {}\<close> and another after \<open>t.author = "ab"\<close>.
\<close>

theorem signed_message_counterexample:
  "Transaction_sign toy 7 3 tx_base
     = Inr (tx_base\<lparr>signature := StrVal (hex (7 # 3 # encode
         ''{\"author\": null, \"container_id\": \"C1\", \"event\": \"loaded\", \"vk\": null}'')),
       vk := StrVal ''07'', author := StrVal (hexdigest (sha256 toy (encode ''07'')))\<rparr>)
   \<and> info tx_base = [(''size'', PStr ''40ft'')]
   \<and> Transaction_json_dumps (tx_base\<lparr>info := []\<rparr>) = Transaction_json_dumps tx_base
   \<and> Transaction_json_dumps (tx_base\<lparr>author := StrVal ''ab''\<rparr>) \<noteq> Transaction_json_dumps tx_base"
proof -
  have neq: "tx_text ''C1'' ''loaded'' (StrVal ''ab'') NoneVal
             \<noteq> tx_text ''C1'' ''loaded'' NoneVal NoneVal"
    using tx_text_inj [of "StrVal ''ab''" NoneVal NoneVal NoneVal "''C1''" "''loaded''" "''C1''"
        "''loaded''"] by auto
  note 1 = sign_tx_base [unfolded tx_signed_eq]
  have 2: "info tx_base = [(''size'', PStr ''40ft'')]"
    by (simp add: tx_base_def tx_new_def Transaction_init_def)
  have 3: "Transaction_json_dumps (tx_base\<lparr>info := []\<rparr>) = Transaction_json_dumps tx_base"
    by (simp add: Transaction_json_dumps_text)
  have 4: "Transaction_json_dumps (tx_base\<lparr>author := StrVal ''ab''\<rparr>)
           \<noteq> Transaction_json_dumps tx_base"
    using neq
    by (simp add: Transaction_json_dumps_text tx_base_def tx_new_def Transaction_init_def)
  from 1 2 3 4 show ?thesis by (intro conjI)
qed

text \<open>
  C2 as the code has it.  When \<open>sign(sk)\<close> completes, the message it signed is the JSON text,
  keys sorted, of the four items \<open>author\<close>, \<open>container_id\<close>, \<open>event\<close> and \<open>vk\<close> as they stand when
  \<open>sign\<close> is called: the authorship id and the public key of before the call are part of it,
  and \<open>info\<close> and the signature are not.
\<close>

theorem sign_signs_four_items:
  "Transaction_sign C sk k t = Inr t' \<Longrightarrow>
   Transaction_json_dumps t = Inr (tx_text (container_id t) (event t) (author t) (vk t))
   \<and> signature t' = StrVal (hex (sk_sign C sk k
         (encode (tx_text (container_id t) (event t) (author t) (vk t)))))"
  by (auto simp: Transaction_sign_def Transaction_json_dumps_text Let_def split: if_splits)

text \<open>C2 as the code has it, at \<open>tx_base\<close> with the key 7 and the random number 3.\<close>

theorem sign_signs_four_items_witness:
  "Transaction_sign toy 7 3 tx_base = Inr tx_signed
   \<and> Transaction_json_dumps tx_base
       = Inr (tx_text (container_id tx_base) (event tx_base) (author tx_base) (vk tx_base))
   \<and> signature tx_signed = StrVal (hex (sk_sign toy 7 3
         (encode (tx_text (container_id tx_base) (event tx_base) (author tx_base) (vk tx_base)))))"
  using sign_signs_four_items [OF sign_tx_base] sign_tx_base by simp

section \<open>The encoding of a transaction\<close>




section \<open>The two states of a transaction\<close>

text \<open>
  C4.  A transaction built by \<open>__init__\<close> and then put through any sequence of calls of \<open>sign\<close>,
  \<open>verify\<close> and \<open>hash\<close> is either unsigned (\<open>author\<close>, \<open>vk\<close> and \<open>signature\<close> all absent) or fully
  signed (\<open>vk\<close> and \<open>signature\<close> are strings and \<open>author\<close> is the SHA-256 digest of \<open>vk\<close>): no call
  leaves only some of the three attributes set.
\<close>

theorem tx_unsigned_or_fully_signed:
  "tx_unsigned (foldl (run_call C) (Transaction_init now cid ev nfo hbr shp dte) cs)
   \<or> tx_fully_signed C (foldl (run_call C) (Transaction_init now cid ev nfo hbr shp dte) cs)"
  by (rule foldl_run_call_preserves) (simp add: tx_unsigned_def Transaction_init_def)

section \<open>\<open>verify\<close> can raise\<close>

text \<open>
  C6 does not hold: \<open>verify()\<close> can raise.  Whenever its \<open>try\<close> block raises, the handler prints
  a text that starts with an accented letter before it returns \<open>False\<close>, and an exception of
  that \<open>print\<close> leaves \<open>verify\<close>.  On a transaction as \<open>__init__\<close> builds it \<open>verify()\<close> returns
  \<open>False\<close> only if \<open>print\<close> returns, and raises what \<open>print\<close> raises otherwise.  With a standard
  output that encodes ASCII only, \<open>verify()\<close> raises \<open>UnicodeEncodeError\<close> on a new transaction
  and whenever \<open>signature\<close>, \<open>vk\<close> or \<open>author\<close> is absent, and it never returns \<open>False\<close>.  With a
  standard output that prints every text \<open>verify()\<close> returns a boolean, \<open>True\<close> exactly when
  \<open>vk\<close> and \<open>signature\<close> are hexadecimal texts, the key decodes and the library accepts the
  signature for the JSON text.  The author is not checked: for \<open>tx_anonymous\<close>, whose \<open>author\<close>
  is \<open>None\<close>, \<open>verify()\<close> returns \<open>True\<close>.
\<close>

theorem verify_raises_from_print:
  "Transaction_verify C io (Transaction_init now cid ev nfo hbr shp dte)
     = (case print_line io (failure_text io AttributeError) of
          Some e \<Rightarrow> Inl e
        | None \<Rightarrow> Inr False)
   \<and> Transaction_verify C (ascii_stdout f) (Transaction_init now cid ev nfo hbr shp dte)
       = Inl UnicodeEncodeError
   \<and> Transaction_verify C (ascii_stdout f) (t\<lparr>signature := Unset\<rparr>) = Inl UnicodeEncodeError
   \<and> Transaction_verify C (ascii_stdout f) (t\<lparr>vk := Unset\<rparr>) = Inl UnicodeEncodeError
   \<and> Transaction_verify C (ascii_stdout f) (t\<lparr>author := Unset\<rparr>) = Inl UnicodeEncodeError
   \<and> Transaction_verify C (ascii_stdout f) t \<noteq> Inr False
   \<and> Transaction_verify C (utf8_stdout f) t =
       Inr (case fromhex_attr (vk t) of
              Inl e \<Rightarrow> False
            | Inr pem \<Rightarrow>
                (case from_pem C pem of
                   None \<Rightarrow> False
                 | Some key \<Rightarrow>
                     (case fromhex_attr (signature t) of
                        Inl e \<Rightarrow> False
                      | Inr sg \<Rightarrow>
                          (case Transaction_json_dumps t of
                             Inl e \<Rightarrow> False
                           | Inr s \<Rightarrow> vk_verify C key sg (encode s)))))
   \<and> author tx_anonymous = NoneVal
   \<and> Transaction_verify toy (utf8_stdout f) tx_anonymous = Inr True"
proof (intro conjI)
  show "Transaction_verify C io (Transaction_init now cid ev nfo hbr shp dte)
     = (case print_line io (failure_text io AttributeError) of
          Some e \<Rightarrow> Inl e
        | None \<Rightarrow> Inr False)"
    by (simp add: Transaction_verify_def verify_try_def Transaction_init_def)
  show "Transaction_verify C (ascii_stdout f) (Transaction_init now cid ev nfo hbr shp dte)
       = Inl UnicodeEncodeError"
    by (simp add: verify_ascii verify_try_def Transaction_init_def)
  show "Transaction_verify C (ascii_stdout f) (t\<lparr>signature := Unset\<rparr>) = Inl UnicodeEncodeError"
    by (simp add: verify_ascii verify_try_def split: sum.splits option.splits)
  show "Transaction_verify C (ascii_stdout f) (t\<lparr>vk := Unset\<rparr>) = Inl UnicodeEncodeError"
    by (simp add: verify_ascii verify_try_def)
  show "Transaction_verify C (ascii_stdout f) (t\<lparr>author := Unset\<rparr>) = Inl UnicodeEncodeError"
    by (simp add: verify_ascii verify_try_def Transaction_json_dumps_text
        split: sum.splits option.splits)
  show "Transaction_verify C (ascii_stdout f) t \<noteq> Inr False"
    using verify_try_not_False [of C t]
    by (cases "verify_try C t") (simp_all add: verify_ascii)
  show "Transaction_verify C (utf8_stdout f) t =
       Inr (case fromhex_attr (vk t) of
              Inl e \<Rightarrow> False
            | Inr pem \<Rightarrow>
                (case from_pem C pem of
                   None \<Rightarrow> False
                 | Some key \<Rightarrow>
                     (case fromhex_attr (signature t) of
                        Inl e \<Rightarrow> False
                      | Inr sg \<Rightarrow>
                          (case Transaction_json_dumps t of
                             Inl e \<Rightarrow> False
                           | Inr s \<Rightarrow> vk_verify C key sg (encode s)))))"
    by (simp add: Transaction_verify_def print_utf8 verify_try_def
        split: sum.splits option.splits)
  show "author tx_anonymous = NoneVal"
    by (simp add: tx_anonymous_eq)
  show "Transaction_verify toy (utf8_stdout f) tx_anonymous = Inr True"
    by (simp add: verify_utf8 verify_try_tx_anonymous)
qed

section \<open>\<open>hash\<close> of a transaction\<close>

text \<open>
  C7.  \<open>hash()\<close> of a transaction that was never signed raises \<open>AttributeError\<close>, not
  \<open>IncompleteTransaction\<close>: \<open>__init__\<close> does not create the attribute \<open>signature\<close> that the test
  \<open>self.signature is None\<close> reads.  With \<open>signature\<close>, \<open>vk\<close> and \<open>author\<close> assigned as \<open>sign\<close> assigns
  them, \<open>hash()\<close> still raises \<open>AttributeError\<close>, at \<open>self.message\<close>, and returns no digest.
\<close>

theorem hash_raises_attribute_error:
  "Transaction_hash C (Transaction_init now cid ev nfo hbr shp dte) = Inl AttributeError
   \<and> Transaction_hash C ((Transaction_init now cid ev nfo hbr shp dte)
         \<lparr>signature := StrVal sg, vk := StrVal v, author := StrVal a\<rparr>) = Inl AttributeError"
  by (simp add: Transaction_hash_def Transaction_init_def Transaction_json_dumps_def
      Transaction_data_def split: sum.splits)

section \<open>Signing twice\<close>

text \<open>
  C8 fails at a concrete input.  \<open>tx_signed\<close> is fully signed, with the key 7.  \<open>sign\<close> with the
  key 9 returns without an exception, and \<open>signature\<close>, \<open>vk\<close> and \<open>author\<close> are now those of the
  key 9.
\<close>

theorem resign_counterexample:
  "tx_fully_signed toy tx_signed
   \<and> vk tx_signed = StrVal ''07''
   \<and> Transaction_sign toy 9 4 tx_signed =
       Inr (tx_signed\<lparr>signature := StrVal (hex (9 # 4 # encode
               (tx_text ''C1'' ''loaded'' (StrVal (hexdigest (sha256 toy (encode ''07''))))
                  (StrVal ''07'')))),
             vk := StrVal ''09'',
             author := StrVal (hexdigest (sha256 toy (encode ''09'')))\<rparr>)"
  by (simp add: tx_signed_fully tx_signed_fields Transaction_sign_def Transaction_json_dumps_text
      Let_def toy_simps hex_key)

text \<open>
  C8 as the code has it.  The modules have no exception \<open>AlreadySigned\<close> and \<open>sign\<close> has no
  test of the state.  On a fully signed transaction \<open>sign(sk)\<close> returns normally and
  overwrites \<open>signature\<close>, \<open>vk\<close> and \<open>author\<close>: the new signature is over the JSON text with the
  old \<open>author\<close> and \<open>vk\<close>, the new \<open>vk\<close> is the text of the verifying key of \<open>sk\<close> and the new
  \<open>author\<close> its digest.
\<close>

theorem sign_again_overwrites:
  "tx_fully_signed C t \<Longrightarrow>
   Transaction_sign C sk k t =
     Inr (t\<lparr>signature := StrVal (hex (sk_sign C sk k
               (encode (tx_text (container_id t) (event t) (author t) (vk t))))),
            vk := StrVal (hex (to_pem C (verifying_key C sk))),
            author := StrVal (hexdigest (sha256 C (encode (hex (to_pem C (verifying_key C sk))))))\<rparr>)"
  by (auto simp: tx_fully_signed_def Transaction_sign_def Transaction_json_dumps_text Let_def
      split: attr.splits)

text \<open>C8 as the code has it, at \<open>tx_signed\<close> with the key 9 and the random number 4.\<close>

theorem sign_again_overwrites_witness:
  "tx_fully_signed toy tx_signed
   \<and> Transaction_sign toy 9 4 tx_signed =
       Inr (tx_signed\<lparr>signature := StrVal (hex (sk_sign toy 9 4
               (encode (tx_text (container_id tx_signed) (event tx_signed) (author tx_signed)
                  (vk tx_signed))))),
             vk := StrVal (hex (to_pem toy (verifying_key toy 9))),
             author := StrVal (hexdigest (sha256 toy
                (encode (hex (to_pem toy (verifying_key toy 9))))))\<rparr>)"
  using sign_again_overwrites [OF tx_signed_fully, of 9 4] tx_signed_fully by simp

section \<open>Blocks\<close>

text \<open>
  C5.  In \<open>B2 = B.next(txs)\<close> the index is \<open>B.index + 1\<close>, the transactions are \<open>txs\<close> and the
  proof is 0, but \<open>B2.previous_hash\<close> is the bound method \<open>B.hash\<close>, not the string \<open>B.hash()\<close>
  returns; so the statements of \<open>hash\<close> raise \<open>TypeError\<close> on \<open>B2\<close>.  From the file as written
  \<open>B2.hash()\<close> gives no string either: the module raises \<open>SyntaxError\<close>.
\<close>

theorem next_previous_hash_is_method:
  "index (Block_next now b txs) = index b + 1
   \<and> transactions (Block_next now b txs) = txs
   \<and> proof_nonce (Block_next now b txs) = 0
   \<and> previous_hash (Block_next now b txs) = HashMethod b
   \<and> previous_hash (Block_next now b txs) \<noteq> HashStr h
   \<and> Block_hash_body C (Block_next now b txs) = Inl TypeError
   \<and> Block_hash C (Block_next now b txs) = Inl SyntaxError"
  by (simp add: Block_next_def Block_hash_body_def Block_hash_def proj_block_import_def
      hashref_value_def)

text \<open>
  C9 does not hold of the file as written: \<open>Block()\<close> and \<open>hash()\<close> give no block and no
  digest, for any block, because the module raises \<open>SyntaxError\<close> when it is imported (the
  stray \<open>x\<close> that ends line 97).  The statements themselves build the fixed content:
  \<open>__init__\<close> assigns index 0, a previous hash of 64 zeros, the timestamp
  \<open>2023-11-24 00:00:00.000000\<close>, no transactions and proof 0, and the statements of \<open>hash\<close>,
  read without the \<open>x\<close>, give the digest of one fixed text made of these five fields.
\<close>

theorem genesis_hash_not_computed:
  "Block_new = Inl SyntaxError
   \<and> Block_hash C b = Inl SyntaxError
   \<and> Block_init = Block 0 (HashStr (replicate 64 CHR ''0'')) ''2023-11-24 00:00:00.000000'' [] 0
   \<and> Block_hash_body C Block_init =
       Inr (hexdigest (sha256 C (encode
         (''{\"index\": 0, \"previous_hash\": \"'' @ replicate 64 CHR ''0''
           @ ''\", \"proof\": 0, \"timestamp\": \"2023-11-24 00:00:00.000000\", \"transactions\": []}''))))"
  by (simp add: Block_new_def Block_hash_def proj_block_import_def Block_init_def
      Block_hash_body_def hashref_value_def encode_basestring_ascii_def escape_char_def
      str_int_def dec.simps hexdigit_def)

end
